theory Spec2Isabelle
  imports Complex_Main
begin

section \<open>The attention decoder of seq2seq/decoders/attention_decoder.py\<close>

text \<open>
  The decoder is graph-building TensorFlow code. The model below runs the graph it
  builds: a tensor is its shape together with its entries, an operation of the tensor
  runtime is a function on such values, and an error of the runtime (raised while the
  graph is built or while it runs) is the value \<open>Inl e\<close>. The entries have an arbitrary
  type \<open>'a\<close>; no law of arithmetic is assumed for it, only the constants \<open>0\<close>, \<open>+\<close>
  and \<open>*\<close> where an operation needs them.
\<close>

subsection \<open>Tensors and the operations of the tensor runtime\<close>

datatype error = InvalidArgumentError | ValueError

text \<open>
  A tensor of rank 2, of shape \<open>[length (rows t), ncols t]\<close>. The width is kept beside
  the rows because an empty batch still has one. \<open>wf2\<close> says the entries fit the shape.
\<close>

record 'a tensor2 =
  ncols :: nat
  rows :: "'a list list"

definition wf2 :: "'a tensor2 \<Rightarrow> bool" where
  "wf2 t \<longleftrightarrow> (\<forall>r \<in> set (rows t). length r = ncols t)"

text \<open>
  A tensor of rank 3, of shape \<open>[length (mats t), dim1 t, dim2 t]\<close>.
\<close>

record 'a tensor3 =
  dim1 :: nat
  dim2 :: nat
  mats :: "'a list list list"

definition wf3 :: "'a tensor3 \<Rightarrow> bool" where
  "wf3 t \<longleftrightarrow> (\<forall>m \<in> set (mats t). length m = dim1 t \<and> (\<forall>r \<in> set m. length r = dim2 t))"

text \<open>\<open>tf.zeros([b, n])\<close>.\<close>

definition tf_zeros :: "nat \<Rightarrow> nat \<Rightarrow> 'a::zero tensor2" where
  "tf_zeros b n = \<lparr>ncols = n, rows = replicate b (replicate n 0)\<rparr>"

text \<open>
  \<open>tf.concat([a, b], 1)\<close>: the rows of the two tensors are joined pairwise; the runtime
  refuses tensors whose first dimensions differ.
\<close>

definition tf_concat1 :: "'a tensor2 \<Rightarrow> 'a tensor2 \<Rightarrow> error + 'a tensor2" where
  "tf_concat1 a b =
     (if length (rows a) \<noteq> length (rows b) then Inl InvalidArgumentError
      else Inr \<lparr>ncols = ncols a + ncols b, rows = map2 (@) (rows a) (rows b)\<rparr>)"

text \<open>
  \<open>tf.pad(t, [[0, 0], [0, p]])\<close>: \<open>p\<close> zeros after every row; the runtime refuses a
  negative padding.
\<close>

definition tf_pad :: "'a::zero tensor2 \<Rightarrow> int \<Rightarrow> error + 'a tensor2" where
  "tf_pad t p =
     (if p < 0 then Inl InvalidArgumentError
      else Inr \<lparr>ncols = ncols t + nat p, rows = map (\<lambda>r. r @ replicate (nat p) 0) (rows t)\<rparr>)"

text \<open>
  \<open>tf.reverse_sequence(input, seq_lengths, seq_dim=1, batch_dim=0)\<close>: row \<open>i\<close> has its
  first \<open>seq_lengths[i]\<close> entries reversed and the others kept. The runtime wants one
  length for each row, none negative and none beyond the width.
\<close>

definition tf_reverse_sequence :: "'a tensor2 \<Rightarrow> int list \<Rightarrow> error + 'a tensor2" where
  "tf_reverse_sequence input seq_lengths =
     (if length seq_lengths \<noteq> length (rows input) then Inl InvalidArgumentError
      else if \<exists>l \<in> set seq_lengths. l < 0 \<or> int (ncols input) < l then Inl InvalidArgumentError
      else Inr (input\<lparr>rows := map2 (\<lambda>r l. rev (take (nat l) r) @ drop (nat l) r)
                                     (rows input) seq_lengths\<rparr>))"

text \<open>
  The slice \<open>t[:, :, :n]\<close> of a tensor of rank 3: an end beyond the last axis is
  clamped to it.
\<close>

definition slice_last :: "'a tensor3 \<Rightarrow> nat \<Rightarrow> 'a tensor3" where
  "slice_last t n = \<lparr>dim1 = dim1 t, dim2 = min (dim2 t) n, mats = map (map (take n)) (mats t)\<rparr>"

text \<open>
  The part of the runtime that \<open>tf.contrib.layers.fully_connected\<close> draws on: the
  function \<open>tf.nn.tanh\<close> on one entry, and the variables of a scope, which the layer
  creates with the shape it needs (\<open>weights\<close> of shape \<open>[inputs, outputs]\<close>, \<open>biases\<close>
  of shape \<open>[outputs]\<close>) and reads by index.
\<close>

record 'a tf_runtime =
  nn_tanh :: "'a \<Rightarrow> 'a"
  weights :: "string \<Rightarrow> nat \<Rightarrow> nat \<Rightarrow> 'a"
  biases :: "string \<Rightarrow> nat \<Rightarrow> 'a"

text \<open>
  Unit \<open>j\<close> of a dense layer before its activation, on one example \<open>x\<close>: the product of
  \<open>x\<close> with column \<open>j\<close> of the weights, plus bias \<open>j\<close>.
\<close>

definition dense_unit :: "'a::{zero,plus,times} tf_runtime \<Rightarrow> string \<Rightarrow> 'a list \<Rightarrow> nat \<Rightarrow> 'a" where
  "dense_unit tf scope x j =
     foldr (+) (map (\<lambda>(i, v). v * weights tf scope i j) (zip [0..<length x] x)) 0
       + biases tf scope j"

text \<open>
  \<open>tf.contrib.layers.fully_connected(inputs, num_outputs, activation_fn, scope)\<close>:
  \<open>activation_fn(inputs * weights + biases)\<close>, of width \<open>num_outputs\<close>.
\<close>

definition fully_connected ::
  "'a::{zero,plus,times} tf_runtime \<Rightarrow> 'a tensor2 \<Rightarrow> nat \<Rightarrow> ('a \<Rightarrow> 'a) option \<Rightarrow> string \<Rightarrow> 'a tensor2" where
  "fully_connected tf inputs num_outputs activation_fn scope =
     \<lparr>ncols = num_outputs,
      rows = map (\<lambda>x. map (\<lambda>j. case activation_fn of
                                   None \<Rightarrow> dense_unit tf scope x j
                                 | Some f \<Rightarrow> f (dense_unit tf scope x j))
                           [0..<num_outputs])
                 (rows inputs)\<rparr>"

text \<open>
  \<open>tf.argmax(logits, 1)\<close>: for every row the first index of its greatest entry; the
  runtime refuses to reduce an axis of size 0.
\<close>

fun argmax_from :: "'a::linorder \<Rightarrow> nat \<Rightarrow> nat \<Rightarrow> 'a list \<Rightarrow> nat" where
  "argmax_from best besti i [] = besti"
| "argmax_from best besti i (x # xs) =
     (if best < x then argmax_from x i (Suc i) xs else argmax_from best besti (Suc i) xs)"

definition argmax_row :: "'a::linorder list \<Rightarrow> nat" where
  "argmax_row r = (case r of [] \<Rightarrow> 0 | x # xs \<Rightarrow> argmax_from x 0 1 xs)"

definition tf_argmax1 :: "'a::linorder tensor2 \<Rightarrow> error + int list" where
  "tf_argmax1 t =
     (if ncols t = 0 then Inl InvalidArgumentError
      else Inr (map (\<lambda>r. int (argmax_row r)) (rows t)))"

subsection \<open>The data of the decoder\<close>

text \<open>
  The named tuple \<open>AttentionDecoderOutput\<close>. The source uses it three times with
  different contents: the tensors of one step, the tensors accumulated over all steps,
  and the sizes declared by \<open>output_size\<close>; hence one type parameter for each field.
\<close>

record ('l, 'p, 'c, 's, 'x) AttentionDecoderOutput =
  logits :: 'l
  predicted_ids :: 'p
  cell_output :: 'c
  attention_scores :: 's
  attention_context :: 'x

type_synonym 'a step_output =
  "('a tensor2, int list, 'a tensor2, 'a tensor2, 'a tensor2) AttentionDecoderOutput"

text \<open>The recurrent cell: what calling it computes, and its \<open>output_size\<close>.\<close>

record ('a, 'st) RNNCell =
  call :: "'a tensor2 \<Rightarrow> 'st \<Rightarrow> 'a tensor2 \<times> 'st"
  cell_output_size :: nat

text \<open>
  The attributes of an \<open>AttentionDecoder\<close>. The first five are set by the constructor
  of \<open>DecoderBase\<close>, the others by \<open>AttentionDecoder.__init__\<close>. The cell, the input
  function and the attention function are the caller's; they are taken to return.
\<close>

record ('a, 'st) AttentionDecoder =
  cell :: "('a, 'st) RNNCell"
  input_fn :: "int \<Rightarrow> bool \<Rightarrow> 'a step_output option \<Rightarrow> 'a tensor2 \<times> bool list"
  initial_state :: 'st
  max_decode_length :: int
  prediction_fn :: "'a tensor2 \<Rightarrow> error + int list"
  vocab_size :: nat
  attention_inputs :: "'a tensor3"
  attention_fn :: "'a tensor2 \<Rightarrow> 'a tensor3 \<Rightarrow> 'a tensor2 \<times> 'a tensor2"
  attention_inputs_max_len :: int
  reverse_scores_lengths :: "int list option"

subsection \<open>The constructor\<close>

text \<open>
  Modelled from the spec: \<open>DecoderBase.__init__\<close> of \<open>seq2seq.decoders\<close>, which
  \<open>AttentionDecoder.__init__\<close> calls with the optional \<open>prediction_fn\<close> and which is not
  part of this file. The spec gives the prediction function as an optional capability
  from logits to predicted ids whose default is arg-max.
\<close>

definition DecoderBase_prediction_fn ::
  "('a::linorder tensor2 \<Rightarrow> error + int list) option \<Rightarrow> 'a tensor2 \<Rightarrow> error + int list" where
  "DecoderBase_prediction_fn prediction_fn' =
     (case prediction_fn' of None \<Rightarrow> tf_argmax1 | Some f \<Rightarrow> f)"

text \<open>
  \<open>AttentionDecoder.__init__\<close>. A caller that leaves \<open>reverse_scores_lengths\<close> or
  \<open>prediction_fn\<close> out passes \<open>None\<close>; one that leaves \<open>attention_inputs_max_len\<close> out
  passes 500.
\<close>

definition AttentionDecoder_init ::
  "('a::linorder, 'st) RNNCell \<Rightarrow> (int \<Rightarrow> bool \<Rightarrow> 'a step_output option \<Rightarrow> 'a tensor2 \<times> bool list)
   \<Rightarrow> 'st \<Rightarrow> nat \<Rightarrow> 'a tensor3 \<Rightarrow> ('a tensor2 \<Rightarrow> 'a tensor3 \<Rightarrow> 'a tensor2 \<times> 'a tensor2)
   \<Rightarrow> int \<Rightarrow> int list option \<Rightarrow> int \<Rightarrow> ('a tensor2 \<Rightarrow> error + int list) option
   \<Rightarrow> ('a, 'st) AttentionDecoder" where
  "AttentionDecoder_init cell' input_fn' initial_state' vocab_size' attention_inputs'
       attention_fn' max_decode_length' reverse_scores_lengths' attention_inputs_max_len'
       prediction_fn' =
     \<lparr>cell = cell',
      input_fn = input_fn',
      initial_state = initial_state',
      max_decode_length = max_decode_length',
      prediction_fn = DecoderBase_prediction_fn prediction_fn',
      vocab_size = vocab_size',
      attention_inputs = attention_inputs',
      attention_fn = attention_fn',
      attention_inputs_max_len = attention_inputs_max_len',
      reverse_scores_lengths = reverse_scores_lengths'\<rparr>"

subsection \<open>The methods\<close>

text \<open>The property \<open>output_size\<close>; \<open>tf.TensorShape([])\<close> is the empty list of dimensions.\<close>

definition output_size ::
  "('a, 'st) AttentionDecoder \<Rightarrow> (nat, nat list, nat, int, nat) AttentionDecoderOutput" where
  "output_size self =
     \<lparr>logits = vocab_size self,
      predicted_ids = [],
      cell_output = cell_output_size (cell self),
      attention_scores = attention_inputs_max_len self,
      attention_context = dim2 (attention_inputs self)\<rparr>"

text \<open>\<open>initialize\<close>: the first input with an empty attention context after it.\<close>

definition initialize ::
  "('a::zero, 'st) AttentionDecoder \<Rightarrow> error + (bool list \<times> 'a tensor2 \<times> 'st)" where
  "initialize self =
     (let (first_inputs, finished) = input_fn self 0 True None;
          att_context = tf_zeros (length (rows first_inputs)) (dim2 (attention_inputs self))
      in case tf_concat1 first_inputs att_context of
           Inl e \<Rightarrow> Inl e
         | Inr first_inputs' \<Rightarrow> Inr (finished, first_inputs', initial_state self))"

text \<open>
  \<open>_build\<close>. The loop of the base class, \<open>DecoderBase._build\<close>, is not part of this file:
  what it returns (or the error it ends with) is the argument \<open>base\<close>.
\<close>

definition build ::
  "('a, 'st) AttentionDecoder \<Rightarrow> error + (('l, 'p, 'c, 'a tensor3, 'x) AttentionDecoderOutput \<times> 'fs)
   \<Rightarrow> error + (('l, 'p, 'c, 'a tensor3, 'x) AttentionDecoderOutput \<times> 'fs)" where
  "build self base =
     (case base of
        Inl e \<Rightarrow> Inl e
      | Inr (outputs, final_state) \<Rightarrow>
          (let source_len = dim1 (attention_inputs self)
           in Inr (outputs\<lparr>attention_scores := slice_last (attention_scores outputs) source_len\<rparr>,
                   final_state)))"

text \<open>\<open>compute_output\<close>: attention, the mixing layer and the logits.\<close>

definition compute_output ::
  "'a::{zero,plus,times} tf_runtime \<Rightarrow> ('a, 'st) AttentionDecoder \<Rightarrow> 'a tensor2
   \<Rightarrow> error + ('a tensor2 \<times> 'a tensor2 \<times> 'a tensor2 \<times> 'a tensor2)" where
  "compute_output tf self cell_out =
     (let (att_scores, att_context) = attention_fn self cell_out (attention_inputs self)
      in case tf_concat1 cell_out att_context of
           Inl e \<Rightarrow> Inl e
         | Inr mixed \<Rightarrow>
             (let softmax_input = fully_connected tf mixed (cell_output_size (cell self))
                                    (Some (nn_tanh tf)) ''attention_mix'';
                  lgts = fully_connected tf softmax_input (vocab_size self) None ''logits''
              in Inr (softmax_input, lgts, att_scores, att_context)))"

text \<open>
  \<open>_pad_att_scores\<close>. \<open>set_shape\<close> only records the width the padding has produced.
\<close>

definition pad_att_scores :: "('a::zero, 'st) AttentionDecoder \<Rightarrow> 'a tensor2 \<Rightarrow> error + 'a tensor2" where
  "pad_att_scores self scores =
     (let max_len = attention_inputs_max_len self
      in tf_pad scores (max_len - int (ncols scores)))"

text \<open>
  The conditional reversal of the padded scores in \<open>step\<close> (the statement
  \<open>if self.reverse_scores_lengths is not None: ...\<close>).
\<close>

definition reverse_att_scores :: "('a, 'st) AttentionDecoder \<Rightarrow> 'a tensor2 \<Rightarrow> error + 'a tensor2" where
  "reverse_att_scores self att_scores =
     (case reverse_scores_lengths self of
        None \<Rightarrow> Inr att_scores
      | Some seq_lengths \<Rightarrow> tf_reverse_sequence att_scores seq_lengths)"

text \<open>
  \<open>step\<close>, with \<open>time'\<close> for the argument \<open>time_\<close>. Every operation of the runtime
  that can fail ends the step with its error; \<open>cell_state\<close> is passed on untouched.
\<close>

definition step ::
  "'a::{zero,plus,times} tf_runtime \<Rightarrow> ('a, 'st) AttentionDecoder \<Rightarrow> int \<Rightarrow> 'a tensor2 \<Rightarrow> 'st
   \<Rightarrow> error + ('a step_output \<times> 'st \<times> 'a tensor2 \<times> bool list)" where
  "step tf self time' inputs state =
     (let (cell_out, cell_state) = call (cell self) inputs state
      in case compute_output tf self cell_out of
           Inl e \<Rightarrow> Inl e
         | Inr (cell_output_new, lgts, att_scores, att_context) \<Rightarrow>
       (case pad_att_scores self att_scores of
           Inl e \<Rightarrow> Inl e
         | Inr padded \<Rightarrow>
       (case reverse_att_scores self padded of
           Inl e \<Rightarrow> Inl e
         | Inr att_scores' \<Rightarrow>
       (case prediction_fn self lgts of
           Inl e \<Rightarrow> Inl e
         | Inr predicted \<Rightarrow>
          (let outputs = \<lparr>logits = lgts,
                          predicted_ids = predicted,
                          cell_output = cell_output_new,
                          attention_scores = att_scores',
                          attention_context = att_context\<rparr>;
               (next_inputs, finished) = input_fn self (time' + 1) False (Some outputs)
           in case tf_concat1 next_inputs att_context of
                Inl e \<Rightarrow> Inl e
              | Inr next_inputs' \<Rightarrow> Inr (outputs, cell_state, next_inputs', finished))))))"

subsection \<open>An example configuration\<close>

text \<open>
  A batch of two examples, a source of length 5 with features of width 3, a cell of
  output width 2 and a vocabulary of 3 words, over the real numbers. The weights are all
  zero and the biases of the \<open>logits\<close> layer are \<open>[0.1, 0.9, 0.0]\<close>. The lengths for the
  reversal and the fixed width of the scores are left open.
\<close>

definition example_cell :: "(real, nat) RNNCell" where
  "example_cell =
     \<lparr>call = (\<lambda>inputs st. (\<lparr>ncols = 2, rows = map (\<lambda>_. [1, 2]) (rows inputs)\<rparr>, Suc st)),
      cell_output_size = 2\<rparr>"

definition example_attention_inputs :: "real tensor3" where
  "example_attention_inputs = \<lparr>dim1 = 5, dim2 = 3, mats = replicate 2 (replicate 5 [1, 0, 2])\<rparr>"

definition example_attention_fn :: "real tensor2 \<Rightarrow> real tensor3 \<Rightarrow> real tensor2 \<times> real tensor2" where
  "example_attention_fn query keys =
     (\<lparr>ncols = dim1 keys, rows = [[1, 2, 3, 4, 5], [6, 7, 8, 9, 10]]\<rparr>,
      \<lparr>ncols = dim2 keys, rows = [[7, 8, 9], [4, 5, 6]]\<rparr>)"

definition example_input_fn ::
  "int \<Rightarrow> bool \<Rightarrow> real step_output option \<Rightarrow> real tensor2 \<times> bool list" where
  "example_input_fn t initial_call predictions =
     (\<lparr>ncols = 1, rows = [[of_int t], [of_int t]]\<rparr>, [False, False])"

definition example_tf :: "real tf_runtime" where
  "example_tf =
     \<lparr>nn_tanh = tanh,
      weights = (\<lambda>scope i j. 0),
      biases = (\<lambda>scope j. if scope = ''logits'' then [1 / 10, 9 / 10, 0] ! j else 0)\<rparr>"

definition example_decoder :: "int list option \<Rightarrow> int \<Rightarrow> (real, nat) AttentionDecoder" where
  "example_decoder lens max_len =
     AttentionDecoder_init example_cell example_input_fn 0 3 example_attention_inputs
       example_attention_fn 20 lens max_len None"

definition example_inputs :: "real tensor2" where
  "example_inputs = \<lparr>ncols = 4, rows = [[0, 0, 0, 0], [0, 0, 0, 0]]\<rparr>"

definition example_scores :: "real tensor2" where
  "example_scores = \<lparr>ncols = 5, rows = [[1, 2, 3, 4, 5], [6, 7, 8, 9, 10]]\<rparr>"

definition example_context :: "real tensor2" where
  "example_context = \<lparr>ncols = 3, rows = [[7, 8, 9], [4, 5, 6]]\<rparr>"

definition example_padded :: "real tensor2" where
  "example_padded =
     \<lparr>ncols = 8, rows = [[1, 2, 3, 4, 5, 0, 0, 0], [6, 7, 8, 9, 10, 0, 0, 0]]\<rparr>"

text \<open>
  What the loop of the base class accumulates over two steps of the example: the padded
  scores of every step, time first.
\<close>

definition example_outputs ::
  "(unit, unit, unit, real tensor3, unit) AttentionDecoderOutput" where
  "example_outputs =
     \<lparr>logits = (), predicted_ids = (), cell_output = (),
      attention_scores = \<lparr>dim1 = 2, dim2 = 8, mats = [rows example_padded, rows example_padded]\<rparr>,
      attention_context = ()\<rparr>"

section \<open>Properties\<close>

subsection \<open>Shapes\<close>

lemma wf2_nth: "wf2 t \<Longrightarrow> i < length (rows t) \<Longrightarrow> length (rows t ! i) = ncols t"
  by (simp add: wf2_def)

lemma tf_concat1_Inr:
  "length (rows a) = length (rows b) \<Longrightarrow>
   tf_concat1 a b = Inr \<lparr>ncols = ncols a + ncols b, rows = map2 (@) (rows a) (rows b)\<rparr>"
  by (simp add: tf_concat1_def)

lemma tf_concat1_InrD:
  "tf_concat1 a b = Inr c \<Longrightarrow>
   length (rows a) = length (rows b) \<and> ncols c = ncols a + ncols b \<and>
   rows c = map2 (@) (rows a) (rows b)"
  by (auto simp: tf_concat1_def split: if_splits)

lemma pad_att_scores_Inr:
  "int (ncols scores) \<le> attention_inputs_max_len self \<Longrightarrow>
   pad_att_scores self scores =
     Inr \<lparr>ncols = nat (attention_inputs_max_len self),
          rows = map (\<lambda>r. r @ replicate (nat (attention_inputs_max_len self) - ncols scores) 0)
                     (rows scores)\<rparr>"
  by (simp add: pad_att_scores_def Let_def tf_pad_def nat_diff_distrib nat_add_distrib)

lemma pad_att_scores_Inl:
  "attention_inputs_max_len self < int (ncols scores) \<Longrightarrow>
   pad_att_scores self scores = Inl InvalidArgumentError"
  by (simp add: pad_att_scores_def Let_def tf_pad_def)

lemma pad_att_scores_InrD:
  "pad_att_scores self scores = Inr padded \<Longrightarrow>
   int (ncols scores) \<le> attention_inputs_max_len self \<and>
   int (ncols padded) = attention_inputs_max_len self \<and>
   rows padded = map (\<lambda>r. r @ replicate (nat (attention_inputs_max_len self) - ncols scores) 0)
                     (rows scores)"
  by (cases "int (ncols scores) \<le> attention_inputs_max_len self")
     (auto simp: pad_att_scores_Inr pad_att_scores_Inl)

lemma wf2_pad_att_scores:
  "wf2 scores \<Longrightarrow> pad_att_scores self scores = Inr padded \<Longrightarrow> wf2 padded"
  by (drule pad_att_scores_InrD) (auto simp: wf2_def)

lemma tf_reverse_sequence_InrD:
  "tf_reverse_sequence t ls = Inr t' \<Longrightarrow>
   length ls = length (rows t) \<and> (\<forall>l \<in> set ls. 0 \<le> l \<and> l \<le> int (ncols t)) \<and>
   ncols t' = ncols t \<and>
   rows t' = map2 (\<lambda>r l. rev (take (nat l) r) @ drop (nat l) r) (rows t) ls"
  by (auto simp: tf_reverse_sequence_def split: if_splits)

lemma reverse_att_scores_ncols:
  "reverse_att_scores self t = Inr t' \<Longrightarrow> ncols t' = ncols t \<and> length (rows t') = length (rows t)"
  by (auto simp: reverse_att_scores_def dest!: tf_reverse_sequence_InrD split: option.splits)

text \<open>What a step that returns has computed on the way.\<close>

lemma step_InrD:
  assumes "step tf self time' inputs state = Inr (outputs, state', next_inputs, finished)"
  shows "\<exists>cell_out softmax_input lgts scores padded raw_inputs.
           call (cell self) inputs state = (cell_out, state') \<and>
           compute_output tf self cell_out =
             Inr (softmax_input, lgts, scores, attention_context outputs) \<and>
           pad_att_scores self scores = Inr padded \<and>
           reverse_att_scores self padded = Inr (attention_scores outputs) \<and>
           prediction_fn self lgts = Inr (predicted_ids outputs) \<and>
           logits outputs = lgts \<and> cell_output outputs = softmax_input \<and>
           input_fn self (time' + 1) False (Some outputs) = (raw_inputs, finished) \<and>
           tf_concat1 raw_inputs (attention_context outputs) = Inr next_inputs"
  using assms
  by (auto simp: step_def Let_def split: prod.splits sum.splits)

lemma compute_output_InrD:
  assumes "compute_output tf self cell_out = Inr (softmax_input, lgts, scores, ctx)"
  shows "attention_fn self cell_out (attention_inputs self) = (scores, ctx) \<and>
         (\<exists>mixed. tf_concat1 cell_out ctx = Inr mixed \<and>
            softmax_input = fully_connected tf mixed (cell_output_size (cell self))
                              (Some (nn_tanh tf)) ''attention_mix'') \<and>
         lgts = fully_connected tf softmax_input (vocab_size self) None ''logits''"
  using assms
  by (auto simp: compute_output_def Let_def split: prod.splits sum.splits)


lemmas example_defs =
  example_decoder_def AttentionDecoder_init_def DecoderBase_prediction_fn_def example_cell_def
  example_input_fn_def example_attention_inputs_def example_attention_fn_def example_tf_def
  example_inputs_def example_scores_def example_context_def example_padded_def

lemmas step_defs =
  step_def compute_output_def pad_att_scores_def reverse_att_scores_def tf_concat1_def
  tf_pad_def tf_reverse_sequence_def fully_connected_def dense_unit_def tf_argmax1_def
  argmax_row_def upt_conv_Cons

subsection \<open>Padding of the attention scores\<close>

text \<open>
  Claim C1. In a step, let \<open>scores\<close> be what the attention function returns for the output
  of the cell. If their width is at most \<open>attention_inputs_max_len\<close>, \<open>_pad_att_scores\<close>
  returns a tensor of exactly that width with as many rows, each row being the row of
  \<open>scores\<close> followed by zeros only. If their width is greater, the padding fails and so
  does the step. A step that returns has padded the scores, and the scores it emits have
  width \<open>attention_inputs_max_len\<close>. With scores of width 5 and
  \<open>attention_inputs_max_len = 8\<close> every padded row has length 8 and zeros at the indices
  5, 6 and 7.
\<close>

theorem pad_att_scores_fixed_width:
  fixes self :: "('a::{zero,plus,times}, 'st) AttentionDecoder"
  assumes cell: "call (cell self) inputs state = (cell_out, cell_state)"
    and att: "attention_fn self cell_out (attention_inputs self) = (scores, ctx)"
    and wf: "wf2 scores"
  shows "(int (ncols scores) \<le> attention_inputs_max_len self \<longrightarrow>
            (\<exists>padded. pad_att_scores self scores = Inr padded \<and> wf2 padded \<and>
               int (ncols padded) = attention_inputs_max_len self \<and>
               length (rows padded) = length (rows scores) \<and>
               (\<forall>i < length (rows scores).
                  take (ncols scores) (rows padded ! i) = rows scores ! i \<and>
                  (\<forall>j. ncols scores \<le> j \<and> j < ncols padded \<longrightarrow> rows padded ! i ! j = 0)))) \<and>
         (attention_inputs_max_len self < int (ncols scores) \<longrightarrow>
            pad_att_scores self scores = Inl InvalidArgumentError \<and>
            (\<exists>e. step tf self time' inputs state = Inl e)) \<and>
         (\<forall>outputs state' next_inputs finished.
            step tf self time' inputs state = Inr (outputs, state', next_inputs, finished) \<longrightarrow>
            (\<exists>padded. pad_att_scores self scores = Inr padded \<and>
               reverse_att_scores self padded = Inr (attention_scores outputs)) \<and>
            int (ncols (attention_scores outputs)) = attention_inputs_max_len self) \<and>
         (ncols scores = 5 \<and> attention_inputs_max_len self = 8 \<longrightarrow>
            (\<exists>padded. pad_att_scores self scores = Inr padded \<and> ncols padded = 8 \<and>
               (\<forall>r \<in> set (rows padded). length r = 8 \<and> r ! 5 = 0 \<and> r ! 6 = 0 \<and> r ! 7 = 0)))"
proof (intro conjI impI allI)
  assume le: "int (ncols scores) \<le> attention_inputs_max_len self"
  let ?m = "nat (attention_inputs_max_len self)"
  let ?p = "\<lparr>ncols = ?m, rows = map (\<lambda>r. r @ replicate (?m - ncols scores) 0) (rows scores)\<rparr>"
  have p: "pad_att_scores self scores = Inr ?p"
    using le by (rule pad_att_scores_Inr)
  have wfp: "wf2 ?p"
    using wf le by (auto simp: wf2_def)
  have entries: "\<forall>i < length (rows scores).
      take (ncols scores) (rows ?p ! i) = rows scores ! i \<and>
      (\<forall>j. ncols scores \<le> j \<and> j < ncols ?p \<longrightarrow> rows ?p ! i ! j = 0)"
    using wf by (auto simp: wf2_def nth_append)
  show "\<exists>padded. pad_att_scores self scores = Inr padded \<and> wf2 padded \<and>
          int (ncols padded) = attention_inputs_max_len self \<and>
          length (rows padded) = length (rows scores) \<and>
          (\<forall>i < length (rows scores).
             take (ncols scores) (rows padded ! i) = rows scores ! i \<and>
             (\<forall>j. ncols scores \<le> j \<and> j < ncols padded \<longrightarrow> rows padded ! i ! j = 0))"
    using p wfp entries le by (intro exI [of _ ?p]) simp
next
  assume gt: "attention_inputs_max_len self < int (ncols scores)"
  then show "pad_att_scores self scores = Inl InvalidArgumentError"
    by (rule pad_att_scores_Inl)
  then show "\<exists>e. step tf self time' inputs state = Inl e"
    using cell att
    by (auto simp: step_def compute_output_def Let_def split: sum.splits prod.splits)
next
  fix outputs state' next_inputs finished
  assume "step tf self time' inputs state = Inr (outputs, state', next_inputs, finished)"
  from step_InrD [OF this] obtain cell_out' softmax_input lgts scores' padded where
    c: "call (cell self) inputs state = (cell_out', state')" and
    co: "compute_output tf self cell_out' = Inr (softmax_input, lgts, scores', attention_context outputs)" and
    p: "pad_att_scores self scores' = Inr padded" and
    r: "reverse_att_scores self padded = Inr (attention_scores outputs)"
    by blast
  from c cell have "cell_out' = cell_out" by simp
  with co att have s: "scores' = scores"
    by (auto dest: compute_output_InrD)
  show "\<exists>padded. pad_att_scores self scores = Inr padded \<and>
          reverse_att_scores self padded = Inr (attention_scores outputs)"
    using p r s by blast
  show "int (ncols (attention_scores outputs)) = attention_inputs_max_len self"
    using pad_att_scores_InrD [OF p] reverse_att_scores_ncols [OF r] by simp
next
  assume ex: "ncols scores = 5 \<and> attention_inputs_max_len self = 8"
  let ?p = "\<lparr>ncols = 8, rows = map (\<lambda>r. r @ replicate 3 0) (rows scores)\<rparr>"
  have "pad_att_scores self scores = Inr ?p"
    using ex pad_att_scores_Inr [of scores self] by simp
  moreover have "\<forall>r \<in> set (rows ?p). length r = 8 \<and> r ! 5 = 0 \<and> r ! 6 = 0 \<and> r ! 7 = 0"
    using wf ex by (auto simp: wf2_def nth_append)
  ultimately show "\<exists>padded. pad_att_scores self scores = Inr padded \<and> ncols padded = 8 \<and>
      (\<forall>r \<in> set (rows padded). length r = 8 \<and> r ! 5 = 0 \<and> r ! 6 = 0 \<and> r ! 7 = 0)"
    by (intro exI [of _ ?p]) simp
qed

lemma example_step_unreversed:
  "step example_tf (example_decoder None 8) 0 example_inputs 0 =
     Inr (\<lparr>logits = \<lparr>ncols = 3, rows = [[1 / 10, 9 / 10, 0], [1 / 10, 9 / 10, 0]]\<rparr>,
           predicted_ids = [1, 1],
           cell_output = \<lparr>ncols = 2, rows = [[0, 0], [0, 0]]\<rparr>,
           attention_scores = example_padded,
           attention_context = example_context\<rparr>,
          1, \<lparr>ncols = 4, rows = [[1, 7, 8, 9], [1, 4, 5, 6]]\<rparr>, [False, False])"
  by (simp add: step_defs example_defs eval_nat_numeral)

theorem pad_att_scores_fixed_width_witness:
  "pad_att_scores (example_decoder None 8) example_scores = Inr example_padded \<and>
   pad_att_scores (example_decoder None 4) example_scores = Inl InvalidArgumentError \<and>
   (\<exists>e. step example_tf (example_decoder None 4) 0 example_inputs 0 = Inl e) \<and>
   map (\<lambda>r. (length r, r ! 5, r ! 6, r ! 7)) (rows example_padded) = [(8, 0, 0, 0), (8, 0, 0, 0)]"
proof -
  have c: "call (cell (example_decoder None m)) example_inputs 0 =
             (\<lparr>ncols = 2, rows = [[1, 2], [1, 2]]\<rparr>, 1)" for m
    by (simp add: example_defs)
  have a: "attention_fn (example_decoder None m) \<lparr>ncols = 2, rows = [[1, 2], [1, 2]]\<rparr>
             (attention_inputs (example_decoder None m)) = (example_scores, example_context)" for m
    by (simp add: example_defs)
  have w: "wf2 example_scores"
    by (simp add: wf2_def example_defs)
  have p: "pad_att_scores (example_decoder None 8) example_scores = Inr example_padded"
    by (simp add: pad_att_scores_def tf_pad_def example_defs eval_nat_numeral)
  have m8: "ncols example_scores = 5 \<and> attention_inputs_max_len (example_decoder None 8) = 8"
    and m4: "attention_inputs_max_len (example_decoder None 4) < int (ncols example_scores)"
    by (simp_all add: example_defs)
  from pad_att_scores_fixed_width [OF c a w, of 8 example_tf 0] p m8
  have "\<forall>r \<in> set (rows example_padded). length r = 8 \<and> r ! 5 = 0 \<and> r ! 6 = 0 \<and> r ! 7 = 0"
    by auto
  moreover from pad_att_scores_fixed_width [OF c a w, of 4 example_tf 0] m4
  have "pad_att_scores (example_decoder None 4) example_scores = Inl InvalidArgumentError \<and>
        (\<exists>e. step example_tf (example_decoder None 4) 0 example_inputs 0 = Inl e)"
    by blast
  ultimately show ?thesis using p by (simp add: example_padded_def)
qed

subsection \<open>The declared size of the scores and the slice after the loop\<close>

lemma wf3_slice_last: "wf3 t \<Longrightarrow> wf3 (slice_last t n)"
  by (auto simp: wf3_def slice_last_def)

lemma build_Inr:
  "build self (Inr (outputs, final_state)) =
     Inr (outputs\<lparr>attention_scores :=
                    slice_last (attention_scores outputs) (dim1 (attention_inputs self))\<rparr>,
          final_state)"
  by (simp add: build_def)

text \<open>
  Claim C2. \<open>output_size\<close> declares \<open>attention_inputs_max_len\<close> as the size of the
  attention scores. When the source is no longer than \<open>attention_inputs_max_len\<close> and
  the loop of the base class returns scores of the declared width, \<open>_build\<close> returns
  them with a last axis of exactly the source length, the second axis of
  \<open>attention_inputs\<close>: every score vector is cut to its first \<open>source_len\<close> entries, and
  the other two axes are as they were.
\<close>

theorem build_slices_to_source_length:
  assumes wf: "wf3 (attention_scores outputs)"
    and declared: "int (dim2 (attention_scores outputs)) = attention_scores (output_size self)"
    and valid: "int (dim1 (attention_inputs self)) \<le> attention_inputs_max_len self"
  shows "attention_scores (output_size self) = attention_inputs_max_len self \<and>
         (\<exists>outputs'. build self (Inr (outputs, final_state)) = Inr (outputs', final_state) \<and>
            wf3 (attention_scores outputs') \<and>
            dim2 (attention_scores outputs') = dim1 (attention_inputs self) \<and>
            dim1 (attention_scores outputs') = dim1 (attention_scores outputs) \<and>
            length (mats (attention_scores outputs')) = length (mats (attention_scores outputs)) \<and>
            (\<forall>t < length (mats (attention_scores outputs)).
               \<forall>b < dim1 (attention_scores outputs).
                 length (mats (attention_scores outputs') ! t ! b) = dim1 (attention_inputs self) \<and>
                 mats (attention_scores outputs') ! t ! b =
                   take (dim1 (attention_inputs self)) (mats (attention_scores outputs) ! t ! b)))"
proof
  show size: "attention_scores (output_size self) = attention_inputs_max_len self"
    by (simp add: output_size_def)
  let ?n = "dim1 (attention_inputs self)"
  let ?s = "attention_scores outputs"
  let ?o = "outputs\<lparr>attention_scores := slice_last ?s ?n\<rparr>"
  have le: "?n \<le> dim2 ?s"
    using declared valid size by simp
  have rows: "length (mats ?s ! t) = dim1 ?s" if "t < length (mats ?s)" for t
    using wf that by (simp add: wf3_def)
  have cols: "length (mats ?s ! t ! b) = dim2 ?s" if "t < length (mats ?s)" "b < dim1 ?s" for t b
  proof -
    have "mats ?s ! t \<in> set (mats ?s)"
      using that by simp
    moreover have "mats ?s ! t ! b \<in> set (mats ?s ! t)"
      using that rows [of t] by simp
    ultimately show ?thesis
      using wf by (simp add: wf3_def)
  qed
  have b: "build self (Inr (outputs, final_state)) = Inr (?o, final_state)"
    by (rule build_Inr)
  have entries: "\<forall>t < length (mats ?s). \<forall>b < dim1 ?s.
          length (mats (attention_scores ?o) ! t ! b) = ?n \<and>
          mats (attention_scores ?o) ! t ! b = take ?n (mats ?s ! t ! b)"
    using le rows cols by (simp add: slice_last_def)
  have shape: "dim2 (attention_scores ?o) = ?n" "dim1 (attention_scores ?o) = dim1 ?s"
    "length (mats (attention_scores ?o)) = length (mats ?s)"
    using le by (simp_all add: slice_last_def)
  have "wf3 (attention_scores ?o)"
    using wf3_slice_last [OF wf, of ?n] by simp
  with b entries shape
  show "\<exists>outputs'. build self (Inr (outputs, final_state)) = Inr (outputs', final_state) \<and>
            wf3 (attention_scores outputs') \<and>
            dim2 (attention_scores outputs') = dim1 (attention_inputs self) \<and>
            dim1 (attention_scores outputs') = dim1 (attention_scores outputs) \<and>
            length (mats (attention_scores outputs')) = length (mats (attention_scores outputs)) \<and>
            (\<forall>t < length (mats (attention_scores outputs)).
               \<forall>b < dim1 (attention_scores outputs).
                 length (mats (attention_scores outputs') ! t ! b) = dim1 (attention_inputs self) \<and>
                 mats (attention_scores outputs') ! t ! b =
                   take (dim1 (attention_inputs self)) (mats (attention_scores outputs) ! t ! b))"
    by blast
qed

theorem build_slices_to_source_length_witness:
  "attention_scores (output_size (example_decoder None 8)) = 8 \<and>
   (\<exists>outputs'.
      build (example_decoder None 8) (Inr (example_outputs, 3 :: nat)) = Inr (outputs', 3) \<and>
      dim2 (attention_scores outputs') = 5 \<and>
      mats (attention_scores outputs') =
        [[[1, 2, 3, 4, 5], [6, 7, 8, 9, 10]], [[1, 2, 3, 4, 5], [6, 7, 8, 9, 10]]])"
proof -
  have wf: "wf3 (attention_scores example_outputs)"
    by (simp add: wf3_def example_outputs_def example_defs)
  have declared: "int (dim2 (attention_scores example_outputs)) =
      attention_scores (output_size (example_decoder None 8))"
    by (simp add: output_size_def example_outputs_def example_defs)
  have valid: "int (dim1 (attention_inputs (example_decoder None 8))) \<le>
      attention_inputs_max_len (example_decoder None 8)"
    by (simp add: example_defs)
  from build_slices_to_source_length [OF wf declared valid, of 3]
  show ?thesis
    by (simp add: build_Inr slice_last_def example_outputs_def example_defs)
qed

text \<open>
  Claim C10. \<open>_build\<close> returns the outputs of the loop of the base class with the
  fields \<open>logits\<close>, \<open>predicted_ids\<close>, \<open>cell_output\<close> and \<open>attention_context\<close> as they
  are, and the final state as it is; an error of the loop is passed on.
\<close>

theorem build_frame:
  "(\<exists>outputs'. build self (Inr (outputs, final_state)) = Inr (outputs', final_state) \<and>
      logits outputs' = logits outputs \<and>
      predicted_ids outputs' = predicted_ids outputs \<and>
      cell_output outputs' = cell_output outputs \<and>
      attention_context outputs' = attention_context outputs) \<and>
   build self (Inl e) = Inl e"
  by (simp add: build_def)

subsection \<open>The first input\<close>

lemma map2_append_replicate:
  "map2 (@) xs (replicate (length xs) z) = map (\<lambda>r. r @ z) xs"
  by (simp add: zip_replicate2)

lemma initialize_Inr:
  assumes "input_fn self 0 True None = (first_inputs, finished)"
  shows "initialize self =
           Inr (finished,
                \<lparr>ncols = ncols first_inputs + dim2 (attention_inputs self),
                 rows = map (\<lambda>r. r @ replicate (dim2 (attention_inputs self)) 0) (rows first_inputs)\<rparr>,
                initial_state self)"
  using assms
  by (simp add: initialize_def tf_zeros_def tf_concat1_def map2_append_replicate)

text \<open>
  Claim C4. \<open>initialize\<close> calls the input function at time 0 with the initial flag and
  no predictions, and returns its finished flags, its input with
  \<open>attention_inputs.shape[2]\<close> zeros after every row, and the initial state. The width of
  the returned input is the width of the raw input plus the width of the features; in
  every row the raw input comes first and zeros only follow.
\<close>

theorem initialize_zero_context:
  assumes first: "input_fn self 0 True None = (first_inputs, finished)"
    and wf: "wf2 first_inputs"
  shows "\<exists>augmented. initialize self = Inr (finished, augmented, initial_state self) \<and>
           wf2 augmented \<and>
           ncols augmented = ncols first_inputs + dim2 (attention_inputs self) \<and>
           length (rows augmented) = length (rows first_inputs) \<and>
           (\<forall>i < length (rows first_inputs).
              take (ncols first_inputs) (rows augmented ! i) = rows first_inputs ! i \<and>
              drop (ncols first_inputs) (rows augmented ! i) =
                replicate (dim2 (attention_inputs self)) 0)"
proof -
  let ?f = "dim2 (attention_inputs self)"
  let ?a = "\<lparr>ncols = ncols first_inputs + ?f,
             rows = map (\<lambda>r. r @ replicate ?f 0) (rows first_inputs)\<rparr>"
  have "initialize self = Inr (finished, ?a, initial_state self)"
    using first by (rule initialize_Inr)
  moreover have "wf2 ?a"
    using wf by (auto simp: wf2_def)
  moreover have "\<forall>i < length (rows first_inputs).
      take (ncols first_inputs) (rows ?a ! i) = rows first_inputs ! i \<and>
      drop (ncols first_inputs) (rows ?a ! i) = replicate ?f 0"
    using wf by (simp add: wf2_def)
  ultimately show ?thesis
    by (intro exI [of _ ?a]) simp
qed

theorem initialize_zero_context_witness:
  "initialize (example_decoder None 8) =
     Inr ([False, False], \<lparr>ncols = 4, rows = [[0, 0, 0, 0], [0, 0, 0, 0]]\<rparr>, 0) \<and>
   (\<exists>augmented. initialize (example_decoder None 8) = Inr ([False, False], augmented, 0) \<and>
      ncols augmented = 1 + 3 \<and> drop 1 (rows augmented ! 1) = [0, 0, 0])"
proof -
  have first: "input_fn (example_decoder None 8) 0 True None =
      (\<lparr>ncols = 1, rows = [[0], [0]]\<rparr>, [False, False])"
    by (simp add: example_defs)
  have wf: "wf2 \<lparr>ncols = 1, rows = [[0 :: real], [0]]\<rparr>"
    by (simp add: wf2_def)
  have vals: "initial_state (example_decoder None 8) = 0"
    "dim2 (attention_inputs (example_decoder None 8)) = 3"
    by (simp_all add: example_defs)
  have "initialize (example_decoder None 8) =
     Inr ([False, False], \<lparr>ncols = 4, rows = [[0, 0, 0, 0], [0, 0, 0, 0]]\<rparr>, 0)"
    unfolding initialize_Inr [OF first] vals by (simp add: eval_nat_numeral)
  moreover from initialize_zero_context [OF first wf]
  have "\<exists>augmented. initialize (example_decoder None 8) = Inr ([False, False], augmented, 0) \<and>
      ncols augmented = 1 + 3 \<and> drop 1 (rows augmented ! 1) = [0, 0, 0]"
    unfolding vals by (auto simp: eval_nat_numeral)
  ultimately show ?thesis ..
qed

subsection \<open>The dense layers\<close>

lemma fully_connected_shape:
  "ncols (fully_connected tf x n act scope) = n"
  "length (rows (fully_connected tf x n act scope)) = length (rows x)"
  "wf2 (fully_connected tf x n act scope)"
  by (auto simp: fully_connected_def wf2_def)

lemma fully_connected_nth:
  "i < length (rows x) \<Longrightarrow> j < n \<Longrightarrow>
   rows (fully_connected tf x n act scope) ! i ! j =
     (case act of None \<Rightarrow> dense_unit tf scope (rows x ! i) j
                | Some f \<Rightarrow> f (dense_unit tf scope (rows x ! i) j))"
  by (simp add: fully_connected_def split: option.splits)

lemma fully_connected_concat_nth:
  assumes "tf_concat1 a b = Inr mixed" and "i < length (rows a)" and "j < n"
  shows "rows (fully_connected tf mixed n (Some f) scope) ! i ! j =
           f (dense_unit tf scope (rows a ! i @ rows b ! i) j)"
proof -
  from tf_concat1_InrD [OF assms(1)]
  have "length (rows a) = length (rows b)" and "rows mixed = map2 (@) (rows a) (rows b)"
    by simp_all
  with assms(2) have "i < length (rows mixed)" and "rows mixed ! i = rows a ! i @ rows b ! i"
    by simp_all
  with assms(3) show ?thesis
    by (simp add: fully_connected_nth)
qed

lemma compute_output_Inr:
  assumes "attention_fn self cell_out (attention_inputs self) = (scores, ctx)"
    and "tf_concat1 cell_out ctx = Inr mixed"
  shows "compute_output tf self cell_out =
           Inr (fully_connected tf mixed (cell_output_size (cell self)) (Some (nn_tanh tf))
                  ''attention_mix'',
                fully_connected tf
                  (fully_connected tf mixed (cell_output_size (cell self)) (Some (nn_tanh tf))
                     ''attention_mix'')
                  (vocab_size self) None ''logits'',
                scores, ctx)"
  using assms by (simp add: compute_output_def Let_def)

text \<open>
  Claim C3. When the attention context has as many rows as the output of the cell,
  \<open>compute_output\<close> returns. Its first result is a dense layer on the rows of the cell
  output joined with the rows of the context: it has width \<open>cell.output_size\<close>, and
  every entry is the \<open>tanh\<close> of a unit of the layer \<open>attention_mix\<close>. Its second result,
  the logits, is a dense layer on the first: it has width \<open>vocab_size\<close>, and every entry
  is a unit of the layer \<open>logits\<close> as it is, with no function applied.
\<close>

theorem compute_output_layers:
  fixes tf :: "'a::{zero,plus,times} tf_runtime"
  assumes att: "attention_fn self cell_out (attention_inputs self) = (scores, ctx)"
    and batch: "length (rows cell_out) = length (rows ctx)"
  shows "\<exists>mixed softmax_input lgts.
           compute_output tf self cell_out = Inr (softmax_input, lgts, scores, ctx) \<and>
           tf_concat1 cell_out ctx = Inr mixed \<and>
           softmax_input = fully_connected tf mixed (cell_output_size (cell self))
                             (Some (nn_tanh tf)) ''attention_mix'' \<and>
           wf2 softmax_input \<and> ncols softmax_input = cell_output_size (cell self) \<and>
           length (rows softmax_input) = length (rows cell_out) \<and>
           (\<forall>i < length (rows cell_out). \<forall>j < cell_output_size (cell self).
              rows softmax_input ! i ! j =
                nn_tanh tf (dense_unit tf ''attention_mix'' (rows cell_out ! i @ rows ctx ! i) j)) \<and>
           lgts = fully_connected tf softmax_input (vocab_size self) None ''logits'' \<and>
           wf2 lgts \<and> ncols lgts = vocab_size self \<and>
           length (rows lgts) = length (rows cell_out) \<and>
           (\<forall>i < length (rows cell_out). \<forall>j < vocab_size self.
              rows lgts ! i ! j = dense_unit tf ''logits'' (rows softmax_input ! i) j)"
proof -
  let ?mixed = "\<lparr>ncols = ncols cell_out + ncols ctx, rows = map2 (@) (rows cell_out) (rows ctx)\<rparr>"
  let ?si = "fully_connected tf ?mixed (cell_output_size (cell self)) (Some (nn_tanh tf))
               ''attention_mix''"
  let ?lg = "fully_connected tf ?si (vocab_size self) None ''logits''"
  have m: "tf_concat1 cell_out ctx = Inr ?mixed"
    using batch by (rule tf_concat1_Inr)
  have co: "compute_output tf self cell_out = Inr (?si, ?lg, scores, ctx)"
    using att m by (rule compute_output_Inr)
  have len: "length (rows ?mixed) = length (rows cell_out)"
    using batch by simp
  have row: "rows ?mixed ! i = rows cell_out ! i @ rows ctx ! i" if "i < length (rows cell_out)" for i
    using that batch by simp
  have si: "\<forall>i < length (rows cell_out). \<forall>j < cell_output_size (cell self).
      rows ?si ! i ! j =
        nn_tanh tf (dense_unit tf ''attention_mix'' (rows cell_out ! i @ rows ctx ! i) j)"
    using len row by (simp add: fully_connected_nth del: tensor2.simps)
  have lg: "\<forall>i < length (rows cell_out). \<forall>j < vocab_size self.
      rows ?lg ! i ! j = dense_unit tf ''logits'' (rows ?si ! i) j"
    using len by (simp add: fully_connected_nth fully_connected_shape del: tensor2.simps)
  have "wf2 ?si" "ncols ?si = cell_output_size (cell self)"
    "length (rows ?si) = length (rows cell_out)"
    "wf2 ?lg" "ncols ?lg = vocab_size self" "length (rows ?lg) = length (rows cell_out)"
    using len by (simp_all add: fully_connected_shape del: tensor2.simps)
  with co m si lg show ?thesis
    by blast
qed

theorem compute_output_layers_witness:
  "compute_output example_tf (example_decoder None 8) \<lparr>ncols = 2, rows = [[1, 2], [1, 2]]\<rparr> =
     Inr (\<lparr>ncols = 2, rows = [[0, 0], [0, 0]]\<rparr>,
          \<lparr>ncols = 3, rows = [[1 / 10, 9 / 10, 0], [1 / 10, 9 / 10, 0]]\<rparr>,
          example_scores, example_context) \<and>
   (\<exists>softmax_input lgts.
      compute_output example_tf (example_decoder None 8) \<lparr>ncols = 2, rows = [[1, 2], [1, 2]]\<rparr> =
        Inr (softmax_input, lgts, example_scores, example_context) \<and>
      ncols softmax_input = 2 \<and> ncols lgts = 3)"
proof -
  let ?c = "\<lparr>ncols = 2, rows = [[1, 2], [1 :: real, 2]]\<rparr>"
  have att: "attention_fn (example_decoder None 8) ?c (attention_inputs (example_decoder None 8)) =
      (example_scores, example_context)"
    by (simp add: example_defs)
  have batch: "length (rows ?c) = length (rows example_context)"
    by (simp add: example_defs)
  have vals: "cell_output_size (cell (example_decoder None 8)) = 2"
    "vocab_size (example_decoder None 8) = 3"
    by (simp_all add: example_defs)
  have "compute_output example_tf (example_decoder None 8) ?c =
     Inr (\<lparr>ncols = 2, rows = [[0, 0], [0, 0]]\<rparr>,
          \<lparr>ncols = 3, rows = [[1 / 10, 9 / 10, 0], [1 / 10, 9 / 10, 0]]\<rparr>,
          example_scores, example_context)"
    by (simp add: step_defs example_defs eval_nat_numeral)
  moreover from compute_output_layers [OF att batch, of example_tf]
  have "\<exists>softmax_input lgts.
      compute_output example_tf (example_decoder None 8) ?c =
        Inr (softmax_input, lgts, example_scores, example_context) \<and>
      ncols softmax_input = 2 \<and> ncols lgts = 3"
    unfolding vals by blast
  ultimately show ?thesis ..
qed

subsection \<open>What a step returns\<close>

text \<open>
  Claim C5. The next input that a step returns is made of the input that the input
  function returns for the time \<open>time_ + 1\<close>, not the initial call, and the outputs
  assembled in this step, and of the attention context of this step: row by row the raw
  input comes first and the context follows it as the trailing block. The finished flags
  are those of the input function. The loop feeds this input to the step that follows.
\<close>

theorem step_next_inputs_carry_context:
  assumes step: "step tf self time' inputs state = Inr (outputs, state', next_inputs, finished)"
    and raw: "input_fn self (time' + 1) False (Some outputs) = (raw_inputs, finished')"
    and wf: "wf2 raw_inputs"
  shows "finished = finished' \<and>
         attention_context outputs =
           snd (attention_fn self (fst (call (cell self) inputs state)) (attention_inputs self)) \<and>
         ncols next_inputs = ncols raw_inputs + ncols (attention_context outputs) \<and>
         length (rows next_inputs) = length (rows raw_inputs) \<and>
         length (rows (attention_context outputs)) = length (rows raw_inputs) \<and>
         (\<forall>i < length (rows raw_inputs).
            rows next_inputs ! i = rows raw_inputs ! i @ rows (attention_context outputs) ! i \<and>
            take (ncols raw_inputs) (rows next_inputs ! i) = rows raw_inputs ! i \<and>
            drop (ncols raw_inputs) (rows next_inputs ! i) = rows (attention_context outputs) ! i)"
proof -
  from step_InrD [OF step] obtain cell_out softmax_input lgts scores raw_inputs' where
    c: "call (cell self) inputs state = (cell_out, state')" and
    co: "compute_output tf self cell_out =
           Inr (softmax_input, lgts, scores, attention_context outputs)" and
    i: "input_fn self (time' + 1) False (Some outputs) = (raw_inputs', finished)" and
    n: "tf_concat1 raw_inputs' (attention_context outputs) = Inr next_inputs"
    by blast
  from i raw have eq: "raw_inputs' = raw_inputs" "finished = finished'"
    by simp_all
  from compute_output_InrD [OF co] c
  have ctx: "attention_context outputs =
      snd (attention_fn self (fst (call (cell self) inputs state)) (attention_inputs self))"
    by simp
  from tf_concat1_InrD [OF n] eq
  have cat: "length (rows raw_inputs) = length (rows (attention_context outputs))"
    "ncols next_inputs = ncols raw_inputs + ncols (attention_context outputs)"
    "rows next_inputs = map2 (@) (rows raw_inputs) (rows (attention_context outputs))"
    by simp_all
  have "\<forall>i < length (rows raw_inputs).
      rows next_inputs ! i = rows raw_inputs ! i @ rows (attention_context outputs) ! i \<and>
      take (ncols raw_inputs) (rows next_inputs ! i) = rows raw_inputs ! i \<and>
      drop (ncols raw_inputs) (rows next_inputs ! i) = rows (attention_context outputs) ! i"
    using cat wf by (simp add: wf2_def)
  with eq ctx cat show ?thesis
    by simp
qed

theorem step_next_inputs_carry_context_witness:
  "(\<exists>outputs next_inputs.
      step example_tf (example_decoder None 8) 0 example_inputs 0 =
        Inr (outputs, 1, next_inputs, [False, False]) \<and>
      attention_context outputs = example_context \<and>
      fst (input_fn (example_decoder None 8) 1 False (Some outputs)) =
        \<lparr>ncols = 1, rows = [[1], [1]]\<rparr> \<and>
      next_inputs = \<lparr>ncols = 4, rows = [[1, 7, 8, 9], [1, 4, 5, 6]]\<rparr> \<and>
      drop 1 (rows next_inputs ! 0) = rows example_context ! 0 \<and>
      drop 1 (rows next_inputs ! 1) = rows example_context ! 1)"
proof -
  let ?outputs = "\<lparr>logits = \<lparr>ncols = 3, rows = [[1 / 10, 9 / 10, 0], [1 / 10, 9 / 10, 0 :: real]]\<rparr>,
           predicted_ids = [1, 1 :: int],
           cell_output = \<lparr>ncols = 2, rows = [[0, 0], [0, 0 :: real]]\<rparr>,
           attention_scores = example_padded,
           attention_context = example_context\<rparr>"
  let ?raw = "\<lparr>ncols = 1, rows = [[1], [1 :: real]]\<rparr>"
  have raw: "input_fn (example_decoder None 8) (0 + 1) False (Some ?outputs) = (?raw, [False, False])"
    by (simp add: example_defs)
  have wf: "wf2 ?raw"
    by (simp add: wf2_def)
  let ?next = "\<lparr>ncols = 4, rows = [[1, 7, 8, 9], [1, 4, 5, 6 :: real]]\<rparr>"
  from step_next_inputs_carry_context [OF example_step_unreversed raw wf]
  have "\<forall>i < length (rows ?raw).
          drop (ncols ?raw) (rows ?next ! i) = rows (attention_context ?outputs) ! i"
    by blast
  then have "drop 1 (rows \<lparr>ncols = 4, rows = [[1, 7, 8, 9], [1, 4, 5, 6 :: real]]\<rparr> ! 0) =
          rows example_context ! 0 \<and>
        drop 1 (rows \<lparr>ncols = 4, rows = [[1, 7, 8, 9], [1, 4, 5, 6 :: real]]\<rparr> ! 1) =
          rows example_context ! 1"
    by (simp add: example_context_def)
  with example_step_unreversed raw show ?thesis
    by simp
qed

text \<open>
  Claim C9. In the outputs of a step the field \<open>cell_output\<close> is the first result of
  \<open>compute_output\<close>, the layer \<open>attention_mix\<close> with \<open>tanh\<close> on the output of the cell
  joined with the attention context, and not what the cell returned; the state that the
  step returns is the state that the cell returned.
\<close>

theorem step_cell_output_is_mixed:
  fixes tf :: "'a::{zero,plus,times} tf_runtime"
  assumes step: "step tf self time' inputs state = Inr (outputs, state', next_inputs, finished)"
    and cell: "call (cell self) inputs state = (raw_output, cell_state)"
  shows "state' = cell_state \<and>
         (\<exists>mixed lgts scores.
            compute_output tf self raw_output =
              Inr (cell_output outputs, lgts, scores, attention_context outputs) \<and>
            tf_concat1 raw_output (attention_context outputs) = Inr mixed \<and>
            cell_output outputs = fully_connected tf mixed (cell_output_size (cell self))
                                    (Some (nn_tanh tf)) ''attention_mix'') \<and>
         ncols (cell_output outputs) = cell_output_size (cell self) \<and>
         length (rows (cell_output outputs)) = length (rows raw_output) \<and>
         (\<forall>i < length (rows raw_output). \<forall>j < cell_output_size (cell self).
            rows (cell_output outputs) ! i ! j =
              nn_tanh tf (dense_unit tf ''attention_mix''
                            (rows raw_output ! i @ rows (attention_context outputs) ! i) j))"
proof -
  from step_InrD [OF step] cell obtain lgts scores where
    st: "state' = cell_state" and
    co: "compute_output tf self raw_output =
           Inr (cell_output outputs, lgts, scores, attention_context outputs)"
    by auto
  from compute_output_InrD [OF co] obtain mixed where
    att: "attention_fn self raw_output (attention_inputs self) = (scores, attention_context outputs)" and
    m: "tf_concat1 raw_output (attention_context outputs) = Inr mixed" and
    fc: "cell_output outputs = fully_connected tf mixed (cell_output_size (cell self))
                                 (Some (nn_tanh tf)) ''attention_mix''"
    by blast
  from tf_concat1_InrD [OF m]
  have batch: "length (rows raw_output) = length (rows (attention_context outputs))"
    by simp
  have "ncols (cell_output outputs) = cell_output_size (cell self)"
    unfolding fc by (rule fully_connected_shape)
  moreover have "length (rows (cell_output outputs)) = length (rows raw_output)"
    using tf_concat1_InrD [OF m] batch unfolding fc by (simp add: fully_connected_shape)
  moreover have "\<forall>i < length (rows raw_output). \<forall>j < cell_output_size (cell self).
           rows (cell_output outputs) ! i ! j =
             nn_tanh tf (dense_unit tf ''attention_mix''
                           (rows raw_output ! i @ rows (attention_context outputs) ! i) j)"
    unfolding fc using fully_connected_concat_nth [OF m] by blast
  ultimately
  have "ncols (cell_output outputs) = cell_output_size (cell self) \<and>
        length (rows (cell_output outputs)) = length (rows raw_output) \<and>
        (\<forall>i < length (rows raw_output). \<forall>j < cell_output_size (cell self).
           rows (cell_output outputs) ! i ! j =
             nn_tanh tf (dense_unit tf ''attention_mix''
                           (rows raw_output ! i @ rows (attention_context outputs) ! i) j))"
    by blast
  with st co m fc show ?thesis
    by blast
qed

theorem step_cell_output_is_mixed_witness:
  "\<exists>outputs next_inputs finished.
     step example_tf (example_decoder None 8) 0 example_inputs 0 =
       Inr (outputs, 1, next_inputs, finished) \<and>
     call (cell (example_decoder None 8)) example_inputs 0 =
       (\<lparr>ncols = 2, rows = [[1, 2], [1, 2]]\<rparr>, 1) \<and>
     cell_output outputs = \<lparr>ncols = 2, rows = [[0, 0], [0, 0]]\<rparr> \<and>
     cell_output outputs \<noteq> fst (call (cell (example_decoder None 8)) example_inputs 0) \<and>
     rows (cell_output outputs) ! 1 ! 0 =
       tanh (dense_unit example_tf ''attention_mix'' ([1, 2] @ [4, 5, 6]) 0)"
proof -
  let ?outputs = "\<lparr>logits = \<lparr>ncols = 3, rows = [[1 / 10, 9 / 10, 0], [1 / 10, 9 / 10, 0 :: real]]\<rparr>,
           predicted_ids = [1, 1 :: int],
           cell_output = \<lparr>ncols = 2, rows = [[0, 0], [0, 0 :: real]]\<rparr>,
           attention_scores = example_padded,
           attention_context = example_context\<rparr>"
  have cell: "call (cell (example_decoder None 8)) example_inputs 0 =
      (\<lparr>ncols = 2, rows = [[1, 2], [1, 2]]\<rparr>, 1)"
    by (simp add: example_defs)
  from step_cell_output_is_mixed [OF example_step_unreversed cell]
  have "\<forall>i < length (rows \<lparr>ncols = 2, rows = [[1, 2], [1, 2 :: real]]\<rparr>).
          \<forall>j < cell_output_size (cell (example_decoder None 8)).
            rows (cell_output ?outputs) ! i ! j =
              nn_tanh example_tf (dense_unit example_tf ''attention_mix''
                (rows \<lparr>ncols = 2, rows = [[1, 2], [1, 2 :: real]]\<rparr> ! i @
                 rows (attention_context ?outputs) ! i) j)"
    by blast
  moreover have "1 < length (rows \<lparr>ncols = 2, rows = [[1, 2], [1, 2 :: real]]\<rparr>)"
    and "0 < cell_output_size (cell (example_decoder None 8))"
    by (simp_all add: example_defs)
  ultimately have "rows (cell_output ?outputs) ! 1 ! 0 =
      nn_tanh example_tf (dense_unit example_tf ''attention_mix''
        (rows \<lparr>ncols = 2, rows = [[1, 2], [1, 2 :: real]]\<rparr> ! 1 @
         rows (attention_context ?outputs) ! 1) 0)"
    by blast
  then have "rows (cell_output ?outputs) ! 1 ! 0 =
      tanh (dense_unit example_tf ''attention_mix'' ([1, 2] @ [4, 5, 6]) 0)"
    by (simp add: example_context_def example_tf_def)
  with example_step_unreversed cell show ?thesis
    by simp
qed

subsection \<open>Reversal of the scores\<close>

lemma rev_prefix_length: "length (rev (take n r) @ drop n r) = length r"
  by simp

lemma rev_prefix_nth:
  assumes "n \<le> length r" and "j < length r"
  shows "(rev (take n r) @ drop n r) ! j = (if j < n then r ! (n - 1 - j) else r ! j)"
  using assms by (auto simp: nth_append rev_nth min_def)

lemma rev_prefix_twice:
  "rev (take n (rev (take n r) @ drop n r)) @ drop n (rev (take n r) @ drop n r) = r"
  by (cases "n \<le> length r") (simp_all add: min_def)

lemma map2_twice:
  assumes "length ls = length xs" and "\<And>r l. f (f r l) l = r"
  shows "map2 f (map2 f xs ls) ls = xs"
  using assms by (induction ls xs rule: list_induct2) simp_all

lemma map2_rev_prefix_twice:
  "length ls = length xs \<Longrightarrow>
   map2 (\<lambda>r l. rev (take (nat l) r) @ drop (nat l) r)
     (map2 (\<lambda>r l. rev (take (nat l) r) @ drop (nat l) r) xs ls) ls = xs"
  by (rule map2_twice) (simp_all only: rev_prefix_twice)

lemma tf_reverse_sequence_Inr:
  assumes "length ls = length (rows t)" and "\<forall>l \<in> set ls. 0 \<le> l \<and> l \<le> int (ncols t)"
  shows "tf_reverse_sequence t ls =
           Inr (t\<lparr>rows := map2 (\<lambda>r l. rev (take (nat l) r) @ drop (nat l) r) (rows t) ls\<rparr>)"
  using assms by (auto simp: tf_reverse_sequence_def)

lemma tf_reverse_sequence_result:
  assumes "tf_reverse_sequence t ls = Inr t'"
  shows "length ls = length (rows t)" and "\<forall>l \<in> set ls. 0 \<le> l \<and> l \<le> int (ncols t)"
    and "t' = t\<lparr>rows := map2 (\<lambda>r l. rev (take (nat l) r) @ drop (nat l) r) (rows t) ls\<rparr>"
  using assms by (auto simp: tf_reverse_sequence_def split: if_splits)

lemma tf_reverse_sequence_twice:
  assumes "tf_reverse_sequence t ls = Inr t'"
  shows "tf_reverse_sequence t' ls = Inr t"
proof -
  note d = tf_reverse_sequence_result [OF assms]
  have "length ls = length (rows t')" and "\<forall>l \<in> set ls. 0 \<le> l \<and> l \<le> int (ncols t')"
    using d by simp_all
  then have "tf_reverse_sequence t' ls =
      Inr (t'\<lparr>rows := map2 (\<lambda>r l. rev (take (nat l) r) @ drop (nat l) r) (rows t') ls\<rparr>)"
    by (rule tf_reverse_sequence_Inr)
  also have "t'\<lparr>rows := map2 (\<lambda>r l. rev (take (nat l) r) @ drop (nat l) r) (rows t') ls\<rparr> = t"
    using d(1) by (simp add: d(3) map2_rev_prefix_twice)
  finally show ?thesis .
qed

lemma reverse_att_scores_twice:
  assumes "reverse_att_scores self t = Inr t'"
  shows "reverse_att_scores self t' = Inr t"
proof (cases "reverse_scores_lengths self")
  case None
  with assms show ?thesis
    by (simp add: reverse_att_scores_def)
next
  case (Some ls)
  with assms have "tf_reverse_sequence t ls = Inr t'"
    by (simp add: reverse_att_scores_def)
  then have "tf_reverse_sequence t' ls = Inr t"
    by (rule tf_reverse_sequence_twice)
  with Some show ?thesis
    by (simp add: reverse_att_scores_def)
qed

text \<open>
  Claim C6. In a step that returns, let \<open>padded\<close> be the padded scores. Without
  \<open>reverse_scores_lengths\<close> the step emits \<open>padded\<close> itself. With lengths \<open>lens\<close> there
  is one length for each example, between 0 and the width, and the scores emitted for
  example \<open>i\<close> have the first \<open>lens[i]\<close> entries of its padded scores in reverse order
  and every entry from position \<open>lens[i]\<close> on where it was.
\<close>

theorem step_reverses_scores_up_to_length:
  fixes tf :: "'a::{zero,plus,times} tf_runtime"
  assumes step: "step tf self time' inputs state = Inr (outputs, state', next_inputs, finished)"
    and cell: "call (cell self) inputs state = (cell_out, cell_state)"
    and att: "attention_fn self cell_out (attention_inputs self) = (scores, ctx)"
    and wf: "wf2 scores"
  shows "\<exists>padded. pad_att_scores self scores = Inr padded \<and>
           (case reverse_scores_lengths self of
              None \<Rightarrow> attention_scores outputs = padded
            | Some lens \<Rightarrow>
                length lens = length (rows padded) \<and>
                ncols (attention_scores outputs) = ncols padded \<and>
                length (rows (attention_scores outputs)) = length (rows padded) \<and>
                (\<forall>i < length (rows padded).
                   0 \<le> lens ! i \<and> lens ! i \<le> int (ncols padded) \<and>
                   length (rows (attention_scores outputs) ! i) = ncols padded \<and>
                   (\<forall>j < ncols padded.
                      rows (attention_scores outputs) ! i ! j =
                        (if int j < lens ! i then rows padded ! i ! (nat (lens ! i) - 1 - j)
                         else rows padded ! i ! j))))"
proof -
  from step_InrD [OF step] obtain cell_out' softmax_input lgts scores' padded where
    c: "call (cell self) inputs state = (cell_out', state')" and
    co: "compute_output tf self cell_out' =
           Inr (softmax_input, lgts, scores', attention_context outputs)" and
    p: "pad_att_scores self scores' = Inr padded" and
    r: "reverse_att_scores self padded = Inr (attention_scores outputs)"
    by blast
  from c cell have "cell_out' = cell_out"
    by simp
  with co att have "scores' = scores"
    by (auto dest: compute_output_InrD)
  with p have p: "pad_att_scores self scores = Inr padded"
    by simp
  have wfp: "wf2 padded"
    using wf p by (rule wf2_pad_att_scores)
  show ?thesis
  proof (cases "reverse_scores_lengths self")
    case None
    with r p show ?thesis
      by (simp add: reverse_att_scores_def)
  next
    case (Some lens)
    let ?f = "\<lambda>r l. rev (take (nat l) r) @ drop (nat l) r"
    from r Some have rs: "tf_reverse_sequence padded lens = Inr (attention_scores outputs)"
      by (simp add: reverse_att_scores_def)
    note d = tf_reverse_sequence_result [OF rs]
    have out: "rows (attention_scores outputs) = map2 ?f (rows padded) lens"
      and nc: "ncols (attention_scores outputs) = ncols padded"
      by (simp_all add: d(3))
    have row: "0 \<le> lens ! i \<and> lens ! i \<le> int (ncols padded) \<and>
               length (rows (attention_scores outputs) ! i) = ncols padded \<and>
               (\<forall>j < ncols padded.
                  rows (attention_scores outputs) ! i ! j =
                    (if int j < lens ! i then rows padded ! i ! (nat (lens ! i) - 1 - j)
                     else rows padded ! i ! j))"
      if i: "i < length (rows padded)" for i
    proof -
      have len: "length (rows padded ! i) = ncols padded"
        using wfp i by (rule wf2_nth)
      have "lens ! i \<in> set lens"
        using i d(1) by simp
      with d(2) have bounds: "0 \<le> lens ! i" "lens ! i \<le> int (ncols padded)"
        by simp_all
      have oi: "rows (attention_scores outputs) ! i = ?f (rows padded ! i) (lens ! i)"
        using i d(1) by (simp add: out)
      have "nat (lens ! i) \<le> length (rows padded ! i)"
        using bounds len by simp
      then have "\<forall>j < ncols padded.
          ?f (rows padded ! i) (lens ! i) ! j =
            (if j < nat (lens ! i) then rows padded ! i ! (nat (lens ! i) - 1 - j)
             else rows padded ! i ! j)"
        using len by (simp add: rev_prefix_nth del: One_nat_def)
      moreover have "j < nat (lens ! i) \<longleftrightarrow> int j < lens ! i" for j
        using bounds by linarith
      ultimately show ?thesis
        using bounds len oi by (simp add: rev_prefix_length del: One_nat_def)
    qed
    have "length (rows (attention_scores outputs)) = length (rows padded)"
      using d(1) by (simp add: out)
    with p Some d(1) nc row show ?thesis
      by auto
  qed
qed

lemma example_step_reversed:
  "step example_tf (example_decoder (Some [5, 3]) 8) 0 example_inputs 0 =
     Inr (\<lparr>logits = \<lparr>ncols = 3, rows = [[1 / 10, 9 / 10, 0], [1 / 10, 9 / 10, 0]]\<rparr>,
           predicted_ids = [1, 1],
           cell_output = \<lparr>ncols = 2, rows = [[0, 0], [0, 0]]\<rparr>,
           attention_scores =
             \<lparr>ncols = 8, rows = [[5, 4, 3, 2, 1, 0, 0, 0], [8, 7, 6, 9, 10, 0, 0, 0]]\<rparr>,
           attention_context = example_context\<rparr>,
          1, \<lparr>ncols = 4, rows = [[1, 7, 8, 9], [1, 4, 5, 6]]\<rparr>, [False, False])"
  by (simp add: step_defs example_defs eval_nat_numeral)

lemma example_cell_call:
  "call (cell (example_decoder lens m)) example_inputs 0 = (\<lparr>ncols = 2, rows = [[1, 2], [1, 2]]\<rparr>, 1)"
  by (simp add: example_defs)

lemma example_attention:
  "attention_fn (example_decoder lens m) \<lparr>ncols = 2, rows = [[1, 2], [1, 2]]\<rparr>
     (attention_inputs (example_decoder lens m)) = (example_scores, example_context)"
  by (simp add: example_defs)

lemma wf2_example_scores: "wf2 example_scores"
  by (simp add: wf2_def example_defs)

lemma example_pad: "pad_att_scores (example_decoder lens 8) example_scores = Inr example_padded"
  by (simp add: pad_att_scores_def tf_pad_def example_defs eval_nat_numeral)

theorem step_reverses_scores_up_to_length_witness:
  "(\<exists>outputs state' next_inputs finished.
      step example_tf (example_decoder None 8) 0 example_inputs 0 =
        Inr (outputs, state', next_inputs, finished) \<and>
      attention_scores outputs = example_padded) \<and>
   (\<exists>outputs state' next_inputs finished.
      step example_tf (example_decoder (Some [5, 3]) 8) 0 example_inputs 0 =
        Inr (outputs, state', next_inputs, finished) \<and>
      pad_att_scores (example_decoder (Some [5, 3]) 8) example_scores = Inr example_padded \<and>
      rows example_padded = [[1, 2, 3, 4, 5, 0, 0, 0], [6, 7, 8, 9, 10, 0, 0, 0]] \<and>
      rows (attention_scores outputs) = [[5, 4, 3, 2, 1, 0, 0, 0], [8, 7, 6, 9, 10, 0, 0, 0]] \<and>
      rows (attention_scores outputs) ! 1 ! 0 = rows example_padded ! 1 ! (3 - 1 - 0) \<and>
      rows (attention_scores outputs) ! 1 ! 3 = rows example_padded ! 1 ! 3)"
proof -
  let ?rev = "\<lparr>ncols = 8, rows = [[5, 4, 3, 2, 1, 0, 0, 0], [8, 7, 6, 9, 10, 0, 0, 0 :: real]]\<rparr>"
  from step_reverses_scores_up_to_length
    [OF example_step_unreversed example_cell_call example_attention wf2_example_scores]
  have none: "\<exists>outputs state' next_inputs finished.
      step example_tf (example_decoder None 8) 0 example_inputs 0 =
        Inr (outputs, state', next_inputs, finished) \<and>
      attention_scores outputs = example_padded"
    using example_step_unreversed by (simp add: example_pad)
  have lens: "reverse_scores_lengths (example_decoder (Some [5, 3]) 8) = Some [5, 3]"
    by (simp add: example_defs)
  from step_reverses_scores_up_to_length
    [OF example_step_reversed example_cell_call example_attention wf2_example_scores]
  have "\<forall>i < length (rows example_padded). \<forall>j < ncols example_padded.
      rows ?rev ! i ! j =
        (if int j < [5, 3] ! i then rows example_padded ! i ! (nat ([5, 3] ! i) - 1 - j)
         else rows example_padded ! i ! j)"
    unfolding lens example_pad by simp
  moreover have "1 < length (rows example_padded)" "0 < ncols example_padded"
    "3 < ncols example_padded"
    by (simp_all add: example_padded_def)
  ultimately have
    "rows ?rev ! 1 ! 0 =
       (if int 0 < [5, 3] ! 1 then rows example_padded ! 1 ! (nat ([5, 3] ! 1) - 1 - 0)
        else rows example_padded ! 1 ! 0)"
    "rows ?rev ! 1 ! 3 =
       (if int 3 < [5, 3] ! 1 then rows example_padded ! 1 ! (nat ([5, 3] ! 1) - 1 - 3)
        else rows example_padded ! 1 ! 3)"
    by blast+
  then have "rows ?rev ! 1 ! 0 = rows example_padded ! 1 ! (3 - 1 - 0)"
    "rows ?rev ! 1 ! 3 = rows example_padded ! 1 ! 3"
    by simp_all
  with example_step_reversed example_pad [of "Some [5, 3]"] none show ?thesis
    by (simp add: example_padded_def)
qed

text \<open>
  Claim C7. When \<open>reverse_scores_lengths\<close> gives the full source length for every
  example, and the source is no longer than the padded scores are wide, the reversal
  of the step returns, and applied to its own result it returns the scores it started
  from.
\<close>

theorem reverse_att_scores_round_trip:
  assumes lens: "reverse_scores_lengths self =
                   Some (replicate (length (rows padded)) (int (dim1 (attention_inputs self))))"
    and fits: "dim1 (attention_inputs self) \<le> ncols padded"
  shows "\<exists>reversed. reverse_att_scores self padded = Inr reversed \<and>
           reverse_att_scores self reversed = Inr padded"
proof -
  let ?ls = "replicate (length (rows padded)) (int (dim1 (attention_inputs self)))"
  have "length ?ls = length (rows padded)"
    by simp
  moreover have "\<forall>l \<in> set ?ls. 0 \<le> l \<and> l \<le> int (ncols padded)"
    using fits by simp
  ultimately obtain reversed where "tf_reverse_sequence padded ?ls = Inr reversed"
    using tf_reverse_sequence_Inr by blast
  with lens have "reverse_att_scores self padded = Inr reversed"
    by (simp add: reverse_att_scores_def)
  then show ?thesis
    using reverse_att_scores_twice by blast
qed

theorem reverse_att_scores_round_trip_witness:
  "reverse_att_scores (example_decoder (Some [5, 5]) 8) example_padded =
     Inr \<lparr>ncols = 8, rows = [[5, 4, 3, 2, 1, 0, 0, 0], [10, 9, 8, 7, 6, 0, 0, 0]]\<rparr> \<and>
   reverse_att_scores (example_decoder (Some [5, 5]) 8)
       \<lparr>ncols = 8, rows = [[5, 4, 3, 2, 1, 0, 0, 0], [10, 9, 8, 7, 6, 0, 0, 0]]\<rparr> =
     Inr example_padded"
proof -
  let ?d = "example_decoder (Some [5, 5]) 8"
  let ?rev = "\<lparr>ncols = 8, rows = [[5, 4, 3, 2, 1, 0, 0, 0], [10, 9, 8, 7, 6, 0, 0, 0 :: real]]\<rparr>"
  have lens: "reverse_scores_lengths ?d =
      Some (replicate (length (rows example_padded)) (int (dim1 (attention_inputs ?d))))"
    by (simp add: example_defs eval_nat_numeral)
  have fits: "dim1 (attention_inputs ?d) \<le> ncols example_padded"
    by (simp add: example_defs)
  have first: "reverse_att_scores ?d example_padded = Inr ?rev"
    by (simp add: reverse_att_scores_def tf_reverse_sequence_def example_defs)
  from reverse_att_scores_round_trip [OF lens fits] first
  have "reverse_att_scores ?d ?rev = Inr example_padded"
    by auto
  with first show ?thesis ..
qed

subsection \<open>The default prediction\<close>

lemma argmax_from_greatest:
  assumes "length pre = i" and "besti < i" and "pre ! besti = best"
    and "\<forall>j < i. pre ! j \<le> best" and "\<forall>j < besti. pre ! j < best"
  shows "argmax_from best besti i xs < length (pre @ xs) \<and>
         (\<forall>j < length (pre @ xs). (pre @ xs) ! j \<le> (pre @ xs) ! argmax_from best besti i xs) \<and>
         (\<forall>j < argmax_from best besti i xs.
            (pre @ xs) ! j < (pre @ xs) ! argmax_from best besti i xs)"
  using assms
proof (induction xs arbitrary: pre i besti best)
  case Nil
  then show ?case
    by simp
next
  case (Cons x xs)
  let ?pre = "pre @ [x]"
  have app: "pre @ x # xs = ?pre @ xs"
    by simp
  show ?case
  proof (cases "best < x")
    case True
    have "length ?pre = Suc i" "i < Suc i" "?pre ! i = x"
      using Cons.prems(1) by auto
    moreover have "\<forall>j < Suc i. ?pre ! j \<le> x"
      using Cons.prems(1,4) True by (auto simp: nth_append less_Suc_eq)
    moreover have "\<forall>j < i. ?pre ! j < x"
      using Cons.prems(1,4) True by (auto simp: nth_append)
    ultimately show ?thesis
      unfolding app using Cons.IH [of ?pre "Suc i" i x] True by simp
  next
    case False
    have "length ?pre = Suc i" "besti < Suc i" "?pre ! besti = best"
      using Cons.prems(1,2,3) by (simp_all add: nth_append)
    moreover have "\<forall>j < Suc i. ?pre ! j \<le> best"
      using Cons.prems(1,4) False by (auto simp: nth_append less_Suc_eq)
    moreover have "\<forall>j < besti. ?pre ! j < best"
      using Cons.prems(1,2,5) by (auto simp: nth_append)
    ultimately show ?thesis
      unfolding app using Cons.IH [of ?pre "Suc i" besti best] False by simp
  qed
qed

lemma argmax_row_greatest:
  assumes "r \<noteq> []"
  shows "argmax_row r < length r \<and>
         (\<forall>j < length r. r ! j \<le> r ! argmax_row r) \<and>
         (\<forall>j < argmax_row r. r ! j < r ! argmax_row r)"
proof -
  from assms obtain x xs where r: "r = x # xs"
    by (cases r) auto
  have "argmax_from x 0 1 xs < length ([x] @ xs) \<and>
        (\<forall>j < length ([x] @ xs). ([x] @ xs) ! j \<le> ([x] @ xs) ! argmax_from x 0 1 xs) \<and>
        (\<forall>j < argmax_from x 0 1 xs. ([x] @ xs) ! j < ([x] @ xs) ! argmax_from x 0 1 xs)"
    by (rule argmax_from_greatest) simp_all
  then show ?thesis
    by (simp add: r argmax_row_def)
qed

lemma tf_argmax1_InrD:
  "tf_argmax1 t = Inr ids \<Longrightarrow> ncols t \<noteq> 0 \<and> ids = map (\<lambda>r. int (argmax_row r)) (rows t)"
  by (auto simp: tf_argmax1_def split: if_splits)

text \<open>
  Claim C8. Let the decoder be constructed with no \<open>prediction_fn\<close>. In a step that
  returns, there is one predicted id for every row of the logits, and it is an index of
  that row at which the row is greatest, the first such index. For the logits
  \<open>[0.1, 0.9, 0.0]\<close> the default prediction function returns the index 1.
\<close>

theorem default_prediction_is_argmax:
  fixes tf :: "'a::{linorder,zero,plus,times} tf_runtime"
  assumes self: "self = AttentionDecoder_init cell' input_fn' initial_state' vocab_size'
                          attention_inputs' attention_fn' max_decode_length'
                          reverse_scores_lengths' attention_inputs_max_len' None"
    and step: "step tf self time' inputs state = Inr (outputs, state', next_inputs, finished)"
  shows "length (predicted_ids outputs) = length (rows (logits outputs)) \<and>
         (\<forall>i < length (rows (logits outputs)).
            \<exists>k < length (rows (logits outputs) ! i).
              predicted_ids outputs ! i = int k \<and>
              (\<forall>j < length (rows (logits outputs) ! i).
                 rows (logits outputs) ! i ! j \<le> rows (logits outputs) ! i ! k) \<and>
              (\<forall>j < k. rows (logits outputs) ! i ! j < rows (logits outputs) ! i ! k)) \<and>
         DecoderBase_prediction_fn None \<lparr>ncols = 3, rows = [[1 / 10, 9 / 10, 0 :: real]]\<rparr> =
           Inr [1]"
proof (intro conjI)
  let ?lg = "logits outputs"
  from step_InrD [OF step] obtain cell_out softmax_input scores where
    co: "compute_output tf self cell_out =
           Inr (softmax_input, ?lg, scores, attention_context outputs)" and
    pr: "prediction_fn self ?lg = Inr (predicted_ids outputs)"
    by auto
  have "prediction_fn self = tf_argmax1"
    by (simp add: self AttentionDecoder_init_def DecoderBase_prediction_fn_def)
  with pr have "tf_argmax1 ?lg = Inr (predicted_ids outputs)"
    by simp
  from tf_argmax1_InrD [OF this]
  have nz: "ncols ?lg \<noteq> 0" and ids: "predicted_ids outputs = map (\<lambda>r. int (argmax_row r)) (rows ?lg)"
    by simp_all
  from compute_output_InrD [OF co]
  have "?lg = fully_connected tf softmax_input (vocab_size self) None ''logits''"
    by simp
  then have wf: "wf2 ?lg"
    using fully_connected_shape(3) [of tf softmax_input "vocab_size self" None "''logits''"]
    by simp
  show "length (predicted_ids outputs) = length (rows ?lg)"
    by (simp add: ids)
  show "\<forall>i < length (rows ?lg).
          \<exists>k < length (rows ?lg ! i).
            predicted_ids outputs ! i = int k \<and>
            (\<forall>j < length (rows ?lg ! i). rows ?lg ! i ! j \<le> rows ?lg ! i ! k) \<and>
            (\<forall>j < k. rows ?lg ! i ! j < rows ?lg ! i ! k)"
  proof (intro allI impI)
    fix i
    assume i: "i < length (rows ?lg)"
    have "length (rows ?lg ! i) = ncols ?lg"
      using wf i by (rule wf2_nth)
    with nz have "rows ?lg ! i \<noteq> []"
      by auto
    from argmax_row_greatest [OF this] i
    show "\<exists>k < length (rows ?lg ! i).
            predicted_ids outputs ! i = int k \<and>
            (\<forall>j < length (rows ?lg ! i). rows ?lg ! i ! j \<le> rows ?lg ! i ! k) \<and>
            (\<forall>j < k. rows ?lg ! i ! j < rows ?lg ! i ! k)"
      by (intro exI [of _ "argmax_row (rows ?lg ! i)"]) (simp add: ids)
  qed
  show "DecoderBase_prediction_fn None \<lparr>ncols = 3, rows = [[1 / 10, 9 / 10, 0 :: real]]\<rparr> =
          Inr [1]"
    by (simp add: DecoderBase_prediction_fn_def tf_argmax1_def argmax_row_def)
qed

theorem default_prediction_is_argmax_witness:
  "\<exists>outputs state' next_inputs finished.
     step example_tf (example_decoder None 8) 0 example_inputs 0 =
       Inr (outputs, state', next_inputs, finished) \<and>
     rows (logits outputs) = [[1 / 10, 9 / 10, 0], [1 / 10, 9 / 10, 0]] \<and>
     predicted_ids outputs = [1, 1] \<and>
     length (predicted_ids outputs) = length (rows (logits outputs)) \<and>
     prediction_fn (example_decoder None 8) \<lparr>ncols = 3, rows = [[1 / 10, 9 / 10, 0]]\<rparr> = Inr [1]"
proof -
  from default_prediction_is_argmax [OF example_decoder_def example_step_unreversed]
  have "DecoderBase_prediction_fn None \<lparr>ncols = 3, rows = [[1 / 10, 9 / 10, 0 :: real]]\<rparr> =
          Inr [1]"
    by blast
  then have "prediction_fn (example_decoder None 8) \<lparr>ncols = 3, rows = [[1 / 10, 9 / 10, 0]]\<rparr> =
          Inr [1]"
    by (simp add: example_decoder_def AttentionDecoder_init_def)
  with example_step_unreversed show ?thesis
    by simp
qed

end
